theory Spec2Isabelle
  imports Main "HOL-Library.Word"
begin

section \<open>The iTAG device session (src/app.js) and the pairing lister (src/drivers/itag/driver.js)\<close>

subsection \<open>Data\<close>

text \<open>
  A thrown value is an object, represented by its message (\<open>Err\<close>: an \<^verbatim>\<open>Error\<close>, or any
  value whose members can be read), or it is \<^verbatim>\<open>null\<close> or \<^verbatim>\<open>undefined\<close> (\<open>Nullish\<close>), of which
  reading a member throws a TypeError. A call that may throw returns a sum: \<open>Inl\<close> the
  thrown value, \<open>Inr\<close> the result; a call without result returns \<open>None\<close> or \<open>Some\<close> the thrown
  value. Elsewhere \<open>None\<close> stands for \<^verbatim>\<open>undefined\<close>/\<^verbatim>\<open>null\<close>.
\<close>

datatype js_error = Err string | Nullish

fun describe :: "js_error \<Rightarrow> string" where
  "describe (Err m) = m"
| "describe Nullish = ''undefined''"

datatype promise = Resolved | Rejected js_error

datatype timer_kind = RssiPoll | Reconnect | RingStop

record timer =
  tid :: nat
  kind :: timer_kind
  delay :: nat

datatype trigger = DeviceDisconnected | DeviceReconnected

record gatt_service =
  svc_id :: "string option"
  svc_uuid :: string

record characteristic =
  char_id :: "string option"
  char_uuid :: string

text \<open>
  The fields of \<^verbatim>\<open>this\<close> that src/app.js reads and writes, the three capability values it
  sets, and the part of the hub and of the transport it acts on: the pending timers
  (\<^verbatim>\<open>homey.setTimeout\<close>, \<^verbatim>\<open>homey.setInterval\<close>), the registry of peripherals, the one-shot
  disconnect observers, the registered listeners, the calls of \<^verbatim>\<open>trigger\<close> on the two trigger cards, the
  bytes written to characteristics, the identifiers passed to \<^verbatim>\<open>ble.find\<close>, the \<^verbatim>\<open>disconnect()\<close>
  requests and the lines logged through \<^verbatim>\<open>this.error\<close> and \<^verbatim>\<open>this.log\<close> in a handler.
  \<open>priv_ringTimeout\<close> is the field \<^verbatim>\<open>this._ringTimeout\<close>; \<open>ringTimeout\<close> is the field
  \<^verbatim>\<open>this.ringTimeout\<close>, which only \<^verbatim>\<open>onDeleted\<close> reads.
\<close>

record device =
  alarm_disconnected :: "bool option"
  ring :: "bool option"
  measure_signal_strength :: "int option"
  wasDisconnected :: bool
  peripheral :: "nat option"
  alertChar :: "characteristic option"
  ringListenerRegistered :: bool
  flowActionsRegistered :: bool
  priv_ringTimeout :: "nat option"
  ringTimeout :: "nat option"
  reconnectTimeout :: "nat option"
  rssiInterval :: "nat option"
  timers :: "timer list"
  next_id :: nat
  registry :: "nat list"
  observers :: "nat list"
  ringListeners :: nat
  startListeners :: nat
  stopListeners :: nat
  fired :: "trigger list"
  writes :: "(string \<times> 8 word list) list"
  finds :: "string list"
  disconnects :: "nat list"
  logged :: "string list"

subsection \<open>Timers of the hub\<close>

definition setTimeout :: "timer_kind \<Rightarrow> nat \<Rightarrow> device \<Rightarrow> nat \<times> device" where
  "setTimeout k d s =
     (next_id s,
      s\<lparr>timers := timers s @ [\<lparr>tid = next_id s, kind = k, delay = d\<rparr>],
        next_id := Suc (next_id s)\<rparr>)"

definition clearTimeout :: "nat \<Rightarrow> device \<Rightarrow> device" where
  "clearTimeout i s = s\<lparr>timers := filter (\<lambda>t. tid t \<noteq> i) (timers s)\<rparr>"

definition pending :: "timer_kind \<Rightarrow> device \<Rightarrow> timer list" where
  "pending k s = filter (\<lambda>t. kind t = k) (timers s)"

subsection \<open>reconnect (src/app.js 296-302)\<close>

definition reconnect :: "device \<Rightarrow> device" where
  "reconnect s =
     (case setTimeout Reconnect 7000 s of (h, s') \<Rightarrow> s'\<lparr>reconnectTimeout := Some h\<rparr>)"

subsection \<open>ringDevice (src/app.js 234-253)\<close>

text \<open>
  \<open>w\<close> is what \<^verbatim>\<open>alertChar.write\<close> does when it is called: \<open>None\<close> it returns, \<open>Some e\<close> it
  throws. With no \<^verbatim>\<open>alertChar\<close> the member access throws a TypeError inside the \<^verbatim>\<open>try\<close>.
\<close>

definition alert_write :: "8 word \<Rightarrow> js_error option \<Rightarrow> device \<Rightarrow> js_error + device" where
  "alert_write b w s =
     (case alertChar s of
        None \<Rightarrow> Inl (Err ''TypeError: Cannot read properties of undefined'')
      | Some c \<Rightarrow>
          (let s' = s\<lparr>writes := writes s @ [(char_uuid c, [b])]\<rparr>
           in case w of None \<Rightarrow> Inr s' | Some e \<Rightarrow> Inl e))"

definition ringDevice :: "bool \<Rightarrow> js_error option \<Rightarrow> device \<Rightarrow> promise \<times> device" where
  "ringDevice v w s =
     (if v then
        (case alert_write 0x02 w s of
           Inr s' \<Rightarrow> (Resolved, s')
         | Inl e \<Rightarrow> (Resolved, s\<lparr>logged := logged s @ [''Error ringing iTAG device: '' @ describe e]\<rparr>))
      else
        (case alert_write 0x00 w s of
           Inr s' \<Rightarrow> (Resolved, s')
         | Inl e \<Rightarrow> (Resolved, s\<lparr>logged := logged s @ [''Error stopping ring on iTAG device: '' @ describe e]\<rparr>)))"

subsection \<open>The ring capability listener and the two flow actions (src/app.js 169-212)\<close>

text \<open>
  \<open>ring_listener\<close> is the callback given to \<^verbatim>\<open>registerCapabilityListener('ring', ...)\<close>,
  \<open>start_ringing\<close> and \<open>stop_ringing\<close> are the run listeners of the two action cards and
  \<open>ring_timer_fires\<close> is the callback of the 10000 ms timer, run when timer \<open>i\<close> elapses.
  \<open>w\<close> is the behaviour of the characteristic write, \<open>c\<close> tells whether
  \<^verbatim>\<open>setCapabilityValue('ring', ...)\<close> succeeds; none of the three callers catches its failure.
\<close>

definition set_ring :: "bool \<Rightarrow> bool \<Rightarrow> device \<Rightarrow> js_error + device" where
  "set_ring v c s = (if c then Inr (s\<lparr>ring := Some v\<rparr>) else Inl (Err ''setCapabilityValue(ring) failed''))"

definition arm_ring_timer :: "device \<Rightarrow> device" where
  "arm_ring_timer s =
     (case setTimeout RingStop 10000 s of (h, s') \<Rightarrow> s'\<lparr>priv_ringTimeout := Some h\<rparr>)"

definition cancel_ring_timer :: "device \<Rightarrow> device" where
  "cancel_ring_timer s =
     (case priv_ringTimeout s of
        None \<Rightarrow> s
      | Some h \<Rightarrow> (clearTimeout h s)\<lparr>priv_ringTimeout := None\<rparr>)"

definition ring_listener :: "bool \<Rightarrow> js_error option \<Rightarrow> device \<Rightarrow> promise \<times> device" where
  "ring_listener v w s =
     (let s1 = snd (ringDevice v w s)
      in if v then (Resolved, arm_ring_timer s1) else (Resolved, cancel_ring_timer s1))"




subsection \<open>onDeleted (src/app.js 316-340)\<close>

text \<open>
  \<open>u\<close> tells whether \<^verbatim>\<open>__unregisterPeripheral\<close> returns, \<open>d\<close> is what
  \<^verbatim>\<open>peripheral.disconnect()\<close> does (\<open>None\<close> it returns, \<open>Some e\<close> it throws).
\<close>

definition unregisterPeripheral :: "nat \<Rightarrow> device \<Rightarrow> device" where
  "unregisterPeripheral p s = s\<lparr>registry := removeAll p (registry s)\<rparr>"

definition clear_if_set :: "nat option \<Rightarrow> device \<Rightarrow> device" where
  "clear_if_set h s = (case h of None \<Rightarrow> s | Some i \<Rightarrow> clearTimeout i s)"

definition log_line :: "string \<Rightarrow> device \<Rightarrow> device" where
  "log_line l s = s\<lparr>logged := logged s @ [l]\<rparr>"

definition onDeleted :: "bool \<Rightarrow> js_error option \<Rightarrow> device \<Rightarrow> promise \<times> device" where
  "onDeleted u d s =
     (let s1 = clear_if_set (rssiInterval s) s;
          s2 = clear_if_set (reconnectTimeout s1) s1;
          s3 = clear_if_set (ringTimeout s2) s2
      in case peripheral s3 of
           None \<Rightarrow> (Resolved, s3)
         | Some p \<Rightarrow>
             (if \<not> u then
                (Resolved, log_line ''Error disconnecting: __unregisterPeripheral failed'' s3)
              else
                (let s4 = (unregisterPeripheral p s3)\<lparr>disconnects := disconnects s3 @ [p]\<rparr>
                 in case d of
                      None \<Rightarrow> (Resolved, s4)
                    | Some e \<Rightarrow> (Resolved, log_line (''Error disconnecting: '' @ describe e) s4))))"

subsection \<open>connectToDevice (src/app.js 55-233)\<close>

text \<open>
  One connect attempt is driven by what the hub and the transport answer at each of its
  calls; an \<open>attempt\<close> holds these answers, in the order of the calls. The three answers
  that are booleans belong to calls whose failure is caught on the spot by a handler that
  only logs the thrown value.
\<close>

record attempt =
  store_address :: "string option"
  ble_find :: "js_error + int option"
  rssi_ok :: bool
  adv_connect :: "js_error + nat"
  alarm_clear :: "js_error option"
  reconnected_ok :: bool
  registerPeripheral :: "js_error option"
  discoverServices :: "js_error + nat"
  ffe0_service :: "js_error + gatt_service option"
  alert_service :: "js_error + gatt_service option"
  linkLostChar :: "js_error + characteristic option"
  buttonChar :: "js_error + characteristic option"
  alert_char :: "js_error + characteristic option"
  linkLost_write :: "js_error option"
  once_observer :: "js_error option"
  ring_register :: "js_error option"
  start_card :: "js_error option"
  stop_card :: "js_error option"
  start_register :: "js_error option"
  stop_register :: "js_error option"
  alarm_set_ok :: bool

text \<open>\<^verbatim>\<open>address.replace(/:/g, '').toLowerCase()\<close> on the ASCII letters of a hardware address.\<close>

definition to_lower :: "char \<Rightarrow> char" where
  "to_lower c =
     (let n = (of_char c :: nat) in if 65 \<le> n \<and> n \<le> 90 then char_of (n + 32) else c)"

definition connection_id :: "string \<Rightarrow> string" where
  "connection_id a = map to_lower (filter (\<lambda>c. c \<noteq> CHR '':'') a)"

text \<open>updateRSSI (src/app.js 285-294): a failed capability write is logged.\<close>

definition updateRSSI :: "int option \<Rightarrow> bool \<Rightarrow> device \<Rightarrow> device" where
  "updateRSSI r c s =
     (case r of
        None \<Rightarrow> s
      | Some v \<Rightarrow>
          (if c then s\<lparr>measure_signal_strength := Some v\<rparr>
           else log_line ''Error setting RSSI capability'' s))"

text \<open>
  Lines 57-80: locate the tag, record its RSSI, establish the link, clear the alarm and
  fire the reconnected trigger. The result is \<open>Inl (e, s)\<close> when \<open>e\<close> is thrown in state
  \<open>s\<close>, and \<open>Inr (p, s)\<close> with the link \<open>p\<close> otherwise.
\<close>

definition fire_reconnected :: "bool \<Rightarrow> device \<Rightarrow> device" where
  "fire_reconnected c s =
     (if wasDisconnected s then
        (let s1 = s\<lparr>fired := fired s @ [DeviceReconnected]\<rparr>
         in if c then s1 else log_line ''Error triggering reconnected Flow'' s1)
          \<lparr>wasDisconnected := False\<rparr>
      else s)"

definition establish_link :: "attempt \<Rightarrow> device \<Rightarrow> (js_error \<times> device) + (nat \<times> device)" where
  "establish_link a s =
     (case store_address a of
        None \<Rightarrow> Inl (Err ''TypeError: Cannot read properties of undefined'', s)
      | Some addr \<Rightarrow>
          (let s1 = s\<lparr>finds := finds s @ [connection_id addr]\<rparr>
           in case ble_find a of
                Inl e \<Rightarrow> Inl (e, s1)
              | Inr rssi \<Rightarrow>
                  (let s2 = updateRSSI rssi (rssi_ok a) s1
                   in case adv_connect a of
                        Inl e \<Rightarrow> Inl (e, s2)
                      | Inr p \<Rightarrow>
                          (case alarm_clear a of
                             Some e \<Rightarrow> Inl (e, s2)
                           | None \<Rightarrow>
                               Inr (p, fire_reconnected (reconnected_ok a)
                                         (s2\<lparr>alarm_disconnected := Some False\<rparr>))))))"

text \<open>
  Lines 82-139: register the link, resolve the two services and the three
  characteristics, keep the alert characteristic and silence the link-loss alarm. The
  three characteristics are fetched before any of them is tested; the alert service is
  not tested, so its absence is the TypeError of the member access on it.
\<close>

definition with_id :: "characteristic \<Rightarrow> characteristic" where
  "with_id c = (if char_id c = None \<or> char_id c = Some [] then c\<lparr>char_id := Some (char_uuid c)\<rparr> else c)"

definition check_characteristics ::
  "attempt \<Rightarrow> characteristic option \<Rightarrow> characteristic option \<Rightarrow> characteristic option \<Rightarrow> device
     \<Rightarrow> (js_error \<times> device) + device" where
  "check_characteristics a ll bc ac s =
     (case ll of
        None \<Rightarrow> Inl (Err ''LinkLost characteristic (FFE2) not found'', s)
      | Some l \<Rightarrow>
     (case bc of
        None \<Rightarrow> Inl (Err ''Button characteristic (FFE1) not found'', s)
      | Some b \<Rightarrow>
     (case ac of
        None \<Rightarrow> Inl (Err ''Alert characteristic (2A06) not found'', s)
      | Some c \<Rightarrow>
          (let s1 = s\<lparr>alertChar := Some (with_id c)\<rparr>
           in case linkLost_write a of
                Some e \<Rightarrow> Inl (e, s1)
              | None \<Rightarrow> Inr (s1\<lparr>writes := writes s1 @ [(char_uuid l, [0x00])]\<rparr>)))))"

definition get_characteristics ::
  "attempt \<Rightarrow> gatt_service option \<Rightarrow> device \<Rightarrow> (js_error \<times> device) + device" where
  "get_characteristics a asvc s =
     (case linkLostChar a of
        Inl e \<Rightarrow> Inl (e, s)
      | Inr ll \<Rightarrow>
     (case buttonChar a of
        Inl e \<Rightarrow> Inl (e, s)
      | Inr bc \<Rightarrow>
     (case asvc of
        None \<Rightarrow> Inl (Err ''TypeError: Cannot read properties of undefined'', s)
      | Some _ \<Rightarrow>
     (case alert_char a of
        Inl e \<Rightarrow> Inl (e, s)
      | Inr ac \<Rightarrow> check_characteristics a ll bc ac s))))"

definition bind_services :: "attempt \<Rightarrow> nat \<Rightarrow> device \<Rightarrow> (js_error \<times> device) + device" where
  "bind_services a p s =
     (case registerPeripheral a of
        Some e \<Rightarrow> Inl (e, s)
      | None \<Rightarrow>
        (let s1 = s\<lparr>registry := registry s @ [p]\<rparr>
         in case discoverServices a of
              Inl e \<Rightarrow> Inl (e, s1)
            | Inr n \<Rightarrow>
           (case ffe0_service a of
              Inl e \<Rightarrow> Inl (e, s1)
            | Inr svc \<Rightarrow>
           (case svc of
              None \<Rightarrow> Inl (Err ''FFE0 service not found'', s1)
            | Some _ \<Rightarrow>
           (case alert_service a of
              Inl e \<Rightarrow> Inl (e, s1)
            | Inr asvc \<Rightarrow> get_characteristics a asvc s1)))))"

text \<open>
  Lines 141-215: keep the link, observe its disconnect once, and register the ring
  listener and the two run listeners, each behind its flag.
\<close>

definition register_ring :: "attempt \<Rightarrow> device \<Rightarrow> (js_error \<times> device) + device" where
  "register_ring a s =
     (if ringListenerRegistered s then Inr s
      else case ring_register a of
             Some e \<Rightarrow> Inl (e, s)
           | None \<Rightarrow>
               Inr (s\<lparr>ringListeners := Suc (ringListeners s), ringListenerRegistered := True\<rparr>))"

definition register_run_listeners :: "attempt \<Rightarrow> device \<Rightarrow> (js_error \<times> device) + device" where
  "register_run_listeners a s =
     (case start_register a of
        Some e \<Rightarrow> Inl (e, s)
      | None \<Rightarrow>
          (let s1 = s\<lparr>startListeners := Suc (startListeners s)\<rparr>
           in case stop_register a of
                Some e \<Rightarrow> Inl (e, s1)
              | None \<Rightarrow>
                  Inr (s1\<lparr>stopListeners := Suc (stopListeners s1), flowActionsRegistered := True\<rparr>)))"

definition register_flows :: "attempt \<Rightarrow> device \<Rightarrow> (js_error \<times> device) + device" where
  "register_flows a s =
     (case start_card a of
        Some e \<Rightarrow> Inl (e, s)
      | None \<Rightarrow>
     (case stop_card a of
        Some e \<Rightarrow> Inl (e, s)
      | None \<Rightarrow>
          (if flowActionsRegistered s then Inr s else register_run_listeners a s)))"

definition install_handlers :: "attempt \<Rightarrow> nat \<Rightarrow> device \<Rightarrow> (js_error \<times> device) + device" where
  "install_handlers a p s =
     (let s1 = s\<lparr>peripheral := Some p\<rparr>
      in case once_observer a of
           Some e \<Rightarrow> Inl (e, s1)
         | None \<Rightarrow>
           (case register_ring a (s1\<lparr>observers := observers s1 @ [p]\<rparr>) of
              Inl x \<Rightarrow> Inl x
            | Inr s2 \<Rightarrow> register_flows a s2))"

definition try_body :: "attempt \<Rightarrow> device \<Rightarrow> (js_error \<times> device) + device" where
  "try_body a s =
     (case establish_link a s of
        Inl x \<Rightarrow> Inl x
      | Inr (p, s1) \<Rightarrow>
          (case bind_services a p s1 of
             Inl x \<Rightarrow> Inl x
           | Inr s2 \<Rightarrow> install_handlers a p s2))"

text \<open>
  Lines 217-232: the catch block. It logs the thrown value, then reads its \<^verbatim>\<open>message\<close> and
  its \<^verbatim>\<open>stack\<close>: of \<^verbatim>\<open>null\<close> or \<^verbatim>\<open>undefined\<close> the read throws a TypeError, which leaves the
  catch block, and the promise of \<^verbatim>\<open>connectToDevice\<close> rejects with it. The alarm write has its
  own handler, and \<^verbatim>\<open>reconnect\<close> is an async function that is not awaited.
\<close>

definition set_alarm :: "bool \<Rightarrow> device \<Rightarrow> device" where
  "set_alarm c s =
     (if c then s\<lparr>alarm_disconnected := Some True\<rparr>
      else log_line ''Error setting disconnected alarm'' s)"

definition catch_block :: "attempt \<Rightarrow> js_error \<Rightarrow> device \<Rightarrow> (js_error \<times> device) + device" where
  "catch_block a e s =
     (let s1 = log_line (''Error connecting to iTAG device: '' @ describe e) s
      in case e of
           Nullish \<Rightarrow>
             Inl (Err ''TypeError: Cannot read properties of undefined (reading message)'', s1)
         | Err m \<Rightarrow>
             (let s2 = log_line ''Error stack'' (log_line (''Error message: '' @ m) s1)
              in Inr (reconnect ((set_alarm (alarm_set_ok a) s2)\<lparr>wasDisconnected := True\<rparr>))))"

definition connectToDevice :: "attempt \<Rightarrow> device \<Rightarrow> promise \<times> device" where
  "connectToDevice a s =
     (case try_body a s of
        Inr s' \<Rightarrow> (Resolved, s')
      | Inl (e, s') \<Rightarrow>
          (case catch_block a e s' of
             Inr s'' \<Rightarrow> (Resolved, s'')
           | Inl (e', s'') \<Rightarrow> (Rejected e', s'')))"

text \<open>
  Lines 145-165: the observer of the link \<open>p\<close>. \<open>c\<close> tells whether the alarm is stored,
  \<open>f\<close> whether the disconnected trigger is delivered; both failures are logged.
  A disconnect of \<open>p\<close> runs every observer registered on \<open>p\<close> and drops them.
\<close>

definition disconnect_handler :: "nat \<Rightarrow> bool \<Rightarrow> bool \<Rightarrow> device \<Rightarrow> device" where
  "disconnect_handler p c f s =
     (let s1 = (set_alarm c s)\<lparr>wasDisconnected := True\<rparr>;
          s1' = s1\<lparr>fired := fired s1 @ [DeviceDisconnected]\<rparr>;
          s2 = (if f then s1' else log_line ''Error triggering disconnected Flow'' s1');
          s3 = (unregisterPeripheral p s2)\<lparr>peripheral := None\<rparr>
      in reconnect s3)"

definition emit_disconnect :: "nat \<Rightarrow> bool \<Rightarrow> bool \<Rightarrow> device \<Rightarrow> device" where
  "emit_disconnect p c f s =
     ((disconnect_handler p c f) ^^ (count_list (observers s) p))
       (s\<lparr>observers := removeAll p (observers s)\<rparr>)"

subsection \<open>Events of one session\<close>

text \<open>
  \<open>Connect a\<close> is one run of \<^verbatim>\<open>connectToDevice\<close> with the answers \<open>a\<close>; \<open>Disconnect p c f\<close>
  is the disconnect of the link \<open>p\<close>; \<open>ReconnectFires i a\<close> is the elapse of the pending
  reconnect timer \<open>i\<close>, whose callback runs \<^verbatim>\<open>connectToDevice\<close>.
\<close>

datatype event =
    Connect attempt
  | Disconnect nat bool bool
  | ReconnectFires nat attempt

definition reconnect_fires :: "nat \<Rightarrow> attempt \<Rightarrow> device \<Rightarrow> device" where
  "reconnect_fires i a s =
     (if i \<in> set (map tid (pending Reconnect s)) then snd (connectToDevice a (clearTimeout i s))
      else s)"

fun step :: "device \<Rightarrow> event \<Rightarrow> device" where
  "step s (Connect a) = snd (connectToDevice a s)"
| "step s (Disconnect p c f) = emit_disconnect p c f s"
| "step s (ReconnectFires i a) = reconnect_fires i a s"

definition run :: "device \<Rightarrow> event list \<Rightarrow> device" where
  "run s es = foldl step s es"

subsection \<open>onPairListDevices (src/drivers/itag/driver.js 19-41)\<close>













subsection \<open>A new session and the attempts used as examples\<close>

text \<open>
  The object before \<^verbatim>\<open>onInit\<close>: every field of \<^verbatim>\<open>this\<close> is undefined, no capability has
  been written, nothing is pending or registered.
\<close>

definition new_device :: device where
  "new_device =
     \<lparr>alarm_disconnected = None, ring = None, measure_signal_strength = None,
      wasDisconnected = False, peripheral = None, alertChar = None,
      ringListenerRegistered = False, flowActionsRegistered = False,
      priv_ringTimeout = None, ringTimeout = None, reconnectTimeout = None,
      rssiInterval = None, timers = [], next_id = 0, registry = [], observers = [],
      ringListeners = 0, startListeners = 0, stopListeners = 0, fired = [], writes = [],
      finds = [], disconnects = [], logged = []\<rparr>"

text \<open>The attempt on the link \<open>p\<close> in which every call succeeds.\<close>

definition good_attempt :: "nat \<Rightarrow> attempt" where
  "good_attempt p =
     \<lparr>store_address = Some ''FF:FF:C1:0A:2B:3C'', ble_find = Inr (Some (- 60)), rssi_ok = True,
      adv_connect = Inr p, alarm_clear = None, reconnected_ok = True, registerPeripheral = None,
      discoverServices = Inr 3,
      ffe0_service = Inr (Some \<lparr>svc_id = None, svc_uuid = ''0000ffe000001000800000805f9b34fb''\<rparr>),
      alert_service = Inr (Some \<lparr>svc_id = None, svc_uuid = ''0000180200001000800000805f9b34fb''\<rparr>),
      linkLostChar = Inr (Some \<lparr>char_id = None, char_uuid = ''0000ffe200001000800000805f9b34fb''\<rparr>),
      buttonChar = Inr (Some \<lparr>char_id = None, char_uuid = ''0000ffe100001000800000805f9b34fb''\<rparr>),
      alert_char = Inr (Some \<lparr>char_id = None, char_uuid = ''00002a0600001000800000805f9b34fb''\<rparr>),
      linkLost_write = None, once_observer = None, ring_register = None, start_card = None,
      stop_card = None, start_register = None, stop_register = None,
      alarm_set_ok = True\<rparr>"

subsection \<open>onInit and startRSSIMonitoring (src/app.js 25-53, 255-283)\<close>

text \<open>
  \<^verbatim>\<open>startRSSIMonitoring\<close> arms the recurring timer of 5000 ms and keeps its handle.
  \<^verbatim>\<open>onInit\<close> writes the ring capability (a failure is logged), starts the monitor unless one
  runs, and, unless the major version \<open>v\<close> of the hub is below 6, runs the first connect
  attempt; \<open>v = None\<close> is a version that \<^verbatim>\<open>parseInt\<close> does not read (\<^verbatim>\<open>NaN < 6\<close> is false).
\<close>

definition startRSSIMonitoring :: "device \<Rightarrow> device" where
  "startRSSIMonitoring s =
     (case setTimeout RssiPoll 5000 s of (h, s') \<Rightarrow> s'\<lparr>rssiInterval := Some h\<rparr>)"

definition onInit :: "nat option \<Rightarrow> bool \<Rightarrow> attempt \<Rightarrow> device \<Rightarrow> promise \<times> device" where
  "onInit v c a s =
     (let s1 = (case set_ring False c s of
                  Inr s' \<Rightarrow> s'
                | Inl e \<Rightarrow> log_line (''Error setting initial capability value: '' @ describe e) s);
          s2 = (if rssiInterval s1 = None then startRSSIMonitoring s1 else s1)
      in case v of
           None \<Rightarrow> connectToDevice a s2
         | Some n \<Rightarrow> (if n < 6 then (Resolved, s2) else connectToDevice a s2))"

subsection \<open>How far an attempt gets\<close>

text \<open>
  \<open>links a\<close>: the calls of lines 57-71 succeed, so the attempt reaches line 73 with a
  link. \<open>binds a\<close>: the calls of lines 84-138 succeed and find every service and
  characteristic. \<open>installs a\<close>: the calls of lines 145-212 do not throw.
\<close>

definition links :: "attempt \<Rightarrow> bool" where
  "links a =
     (store_address a \<noteq> None \<and> \<not> isl (ble_find a) \<and> \<not> isl (adv_connect a) \<and> alarm_clear a = None)"

definition present :: "js_error + 'a option \<Rightarrow> bool" where
  "present r = (case r of Inl e \<Rightarrow> False | Inr v \<Rightarrow> v \<noteq> None)"

definition binds :: "attempt \<Rightarrow> bool" where
  "binds a =
     (registerPeripheral a = None \<and> \<not> isl (discoverServices a) \<and> present (ffe0_service a) \<and>
      present (alert_service a) \<and> present (linkLostChar a) \<and> present (buttonChar a) \<and>
      present (alert_char a) \<and> linkLost_write a = None)"

definition installs :: "attempt \<Rightarrow> bool" where
  "installs a =
     (once_observer a = None \<and> ring_register a = None \<and> start_card a = None \<and>
      stop_card a = None \<and> start_register a = None \<and> stop_register a = None)"

definition attempt_ok :: "attempt \<Rightarrow> bool" where
  "attempt_ok a = (links a \<and> binds a \<and> installs a)"




text \<open>The state in which a stage of the attempt ends, whether it throws or returns.\<close>

definition thrown_or_done :: "((js_error \<times> device) + device) \<Rightarrow> device" where
  "thrown_or_done r = (case r of Inl (e, s) \<Rightarrow> s | Inr s \<Rightarrow> s)"


subsection \<open>The live link of a session\<close>




subsection \<open>Disconnected runs and the reconnected trigger\<close>





subsection \<open>Registered listeners\<close>




subsection \<open>Reconnect timers\<close>

text \<open>
  \<open>one_pending\<close>: the pending reconnect timers and the installed disconnect observers are
  at most one together. \<open>scheduled\<close>: the event is a disconnect, or an attempt run by the
  reconnect timer in which the calls of lines 145-212 do not throw, so that the attempt
  either completes or throws before it installs the disconnect observer.
\<close>

definition one_pending :: "device \<Rightarrow> bool" where
  "one_pending s = (length (pending Reconnect s) + length (observers s) \<le> 1)"

fun scheduled :: "event \<Rightarrow> bool" where
  "scheduled (Connect a) = False"
| "scheduled (Disconnect p c f) = True"
| "scheduled (ReconnectFires i a) = installs a"

subsection \<open>Ring commands\<close>







section \<open>Properties\<close>

subsection \<open>What each stage of a connect attempt changes\<close>

lemmas run_defs = connectToDevice_def try_body_def establish_link_def bind_services_def
  get_characteristics_def check_characteristics_def install_handlers_def register_ring_def
  register_flows_def register_run_listeners_def catch_block_def set_alarm_def reconnect_def setTimeout_def clearTimeout_def
  emit_disconnect_def disconnect_handler_def unregisterPeripheral_def onDeleted_def clear_if_set_def
  ring_listener_def ringDevice_def alert_write_def arm_ring_timer_def cancel_ring_timer_def
  updateRSSI_def fire_reconnected_def log_line_def with_id_def good_attempt_def new_device_def
  connection_id_def pending_def Let_def

lemmas stage_defs = updateRSSI_def fire_reconnected_def log_line_def Let_def

lemma establish_link_Inr:
  "establish_link a s = Inr (p, s') \<Longrightarrow>
     links a \<and> adv_connect a = Inr p
     \<and> timers s' = timers s \<and> next_id s' = next_id s \<and> reconnectTimeout s' = reconnectTimeout s
     \<and> observers s' = observers s \<and> peripheral s' = peripheral s
     \<and> alarm_disconnected s' = Some False \<and> wasDisconnected s' = False
     \<and> fired s' = fired s @ (if wasDisconnected s then [DeviceReconnected] else [])
     \<and> length (finds s') = Suc (length (finds s))
     \<and> ringListeners s' = ringListeners s \<and> startListeners s' = startListeners s
     \<and> stopListeners s' = stopListeners s
     \<and> ringListenerRegistered s' = ringListenerRegistered s
     \<and> flowActionsRegistered s' = flowActionsRegistered s"
  by (auto simp: establish_link_def links_def stage_defs split: option.splits sum.splits if_splits)

lemma establish_link_Inl:
  "establish_link a s = Inl (e, s') \<Longrightarrow>
     \<not> links a
     \<and> timers s' = timers s \<and> next_id s' = next_id s \<and> reconnectTimeout s' = reconnectTimeout s
     \<and> observers s' = observers s \<and> peripheral s' = peripheral s
     \<and> alarm_disconnected s' = alarm_disconnected s \<and> wasDisconnected s' = wasDisconnected s
     \<and> fired s' = fired s
     \<and> length (finds s') \<le> Suc (length (finds s))
     \<and> ringListeners s' = ringListeners s \<and> startListeners s' = startListeners s
     \<and> stopListeners s' = stopListeners s
     \<and> ringListenerRegistered s' = ringListenerRegistered s
     \<and> flowActionsRegistered s' = flowActionsRegistered s"
  by (auto simp: establish_link_def links_def stage_defs split: option.splits sum.splits if_splits)


lemma bind_services_frame:
  "thrown_or_done (bind_services a p s) = s'  \<Longrightarrow>
     timers s' = timers s \<and> next_id s' = next_id s \<and> reconnectTimeout s' = reconnectTimeout s
     \<and> observers s' = observers s \<and> peripheral s' = peripheral s
     \<and> alarm_disconnected s' = alarm_disconnected s \<and> wasDisconnected s' = wasDisconnected s
     \<and> fired s' = fired s \<and> finds s' = finds s
     \<and> ringListeners s' = ringListeners s \<and> startListeners s' = startListeners s
     \<and> stopListeners s' = stopListeners s
     \<and> ringListenerRegistered s' = ringListenerRegistered s
     \<and> flowActionsRegistered s' = flowActionsRegistered s"
  by (auto simp: thrown_or_done_def bind_services_def get_characteristics_def check_characteristics_def Let_def
      split: option.splits sum.splits if_splits)

lemma bind_services_binds: "isl (bind_services a p s) = (\<not> binds a)"
  by (auto simp: bind_services_def get_characteristics_def check_characteristics_def Let_def binds_def present_def
      split: option.splits sum.splits if_splits)

lemma install_handlers_frame:
  "thrown_or_done (install_handlers a p s) = s' \<Longrightarrow>
     timers s' = timers s \<and> next_id s' = next_id s \<and> reconnectTimeout s' = reconnectTimeout s
     \<and> peripheral s' = Some p
     \<and> alarm_disconnected s' = alarm_disconnected s \<and> wasDisconnected s' = wasDisconnected s
     \<and> fired s' = fired s \<and> finds s' = finds s"
  by (auto simp: thrown_or_done_def install_handlers_def register_ring_def register_flows_def register_run_listeners_def Let_def
      split: option.splits sum.splits if_splits)

lemma install_handlers_Inr:
  "install_handlers a p s = Inr s' \<Longrightarrow>
     observers s' = observers s @ [p]
     \<and> ringListenerRegistered s' \<and> flowActionsRegistered s'
     \<and> ringListeners s' = (if ringListenerRegistered s then ringListeners s else Suc (ringListeners s))
     \<and> startListeners s' = (if flowActionsRegistered s then startListeners s else Suc (startListeners s))
     \<and> stopListeners s' = (if flowActionsRegistered s then stopListeners s else Suc (stopListeners s))"
  by (auto simp: install_handlers_def register_ring_def register_flows_def register_run_listeners_def Let_def
      split: option.splits sum.splits if_splits)

lemma install_handlers_Inl:
  "install_handlers a p s = Inl (e, s') \<Longrightarrow>
     \<not> installs a
     \<and> (ringListenerRegistered s' = ringListenerRegistered s \<and> ringListeners s' = ringListeners s
        \<or> \<not> ringListenerRegistered s \<and> ringListenerRegistered s' \<and> ringListeners s' = Suc (ringListeners s))
     \<and> flowActionsRegistered s' = flowActionsRegistered s
     \<and> stopListeners s' = stopListeners s
     \<and> (stop_register a = None \<longrightarrow> startListeners s' = startListeners s)"
  by (auto simp: install_handlers_def register_ring_def register_flows_def register_run_listeners_def installs_def Let_def
      split: option.splits sum.splits if_splits)



lemma bind_services_Inr:
  "bind_services a p s = Inr s' \<Longrightarrow>
     binds a
     \<and> timers s' = timers s \<and> next_id s' = next_id s \<and> reconnectTimeout s' = reconnectTimeout s
     \<and> observers s' = observers s \<and> peripheral s' = peripheral s
     \<and> alarm_disconnected s' = alarm_disconnected s \<and> wasDisconnected s' = wasDisconnected s
     \<and> fired s' = fired s \<and> finds s' = finds s
     \<and> ringListeners s' = ringListeners s \<and> startListeners s' = startListeners s
     \<and> stopListeners s' = stopListeners s
     \<and> ringListenerRegistered s' = ringListenerRegistered s
     \<and> flowActionsRegistered s' = flowActionsRegistered s"
  using bind_services_frame [of a p s s'] bind_services_binds [of a p s]
  by (simp add: thrown_or_done_def)

lemma bind_services_Inl:
  "bind_services a p s = Inl (e, s') \<Longrightarrow>
     \<not> binds a
     \<and> timers s' = timers s \<and> next_id s' = next_id s \<and> reconnectTimeout s' = reconnectTimeout s
     \<and> observers s' = observers s \<and> peripheral s' = peripheral s
     \<and> alarm_disconnected s' = alarm_disconnected s \<and> wasDisconnected s' = wasDisconnected s
     \<and> fired s' = fired s \<and> finds s' = finds s
     \<and> ringListeners s' = ringListeners s \<and> startListeners s' = startListeners s
     \<and> stopListeners s' = stopListeners s
     \<and> ringListenerRegistered s' = ringListenerRegistered s
     \<and> flowActionsRegistered s' = flowActionsRegistered s"
  using bind_services_frame [of a p s s'] bind_services_binds [of a p s]
  by (simp add: thrown_or_done_def)

lemma install_handlers_Inr_frame:
  "install_handlers a p s = Inr s' \<Longrightarrow>
     timers s' = timers s \<and> next_id s' = next_id s \<and> reconnectTimeout s' = reconnectTimeout s
     \<and> peripheral s' = Some p
     \<and> alarm_disconnected s' = alarm_disconnected s \<and> wasDisconnected s' = wasDisconnected s
     \<and> fired s' = fired s \<and> finds s' = finds s"
  using install_handlers_frame [of a p s s'] by (simp add: thrown_or_done_def)

lemma install_handlers_Inl_frame:
  "install_handlers a p s = Inl (e, s') \<Longrightarrow>
     timers s' = timers s \<and> next_id s' = next_id s \<and> reconnectTimeout s' = reconnectTimeout s
     \<and> peripheral s' = Some p
     \<and> alarm_disconnected s' = alarm_disconnected s \<and> wasDisconnected s' = wasDisconnected s
     \<and> fired s' = fired s \<and> finds s' = finds s"
  using install_handlers_frame [of a p s s'] by (simp add: thrown_or_done_def)

lemma try_body_Inr:
  assumes "try_body a s = Inr s'"
  shows "links a \<and> binds a
     \<and> (\<exists>p. adv_connect a = Inr p \<and> peripheral s' = Some p \<and> observers s' = observers s @ [p])
     \<and> timers s' = timers s \<and> next_id s' = next_id s \<and> reconnectTimeout s' = reconnectTimeout s
     \<and> alarm_disconnected s' = Some False \<and> wasDisconnected s' = False
     \<and> fired s' = fired s @ (if wasDisconnected s then [DeviceReconnected] else [])
     \<and> length (finds s') = Suc (length (finds s))
     \<and> ringListenerRegistered s' \<and> flowActionsRegistered s'
     \<and> ringListeners s' = (if ringListenerRegistered s then ringListeners s else Suc (ringListeners s))
     \<and> startListeners s' = (if flowActionsRegistered s then startListeners s else Suc (startListeners s))
     \<and> stopListeners s' = (if flowActionsRegistered s then stopListeners s else Suc (stopListeners s))"
proof -
  from assms obtain p s1 s2 where
    e: "establish_link a s = Inr (p, s1)" and b: "bind_services a p s1 = Inr s2"
    and i: "install_handlers a p s2 = Inr s'"
    by (auto simp: try_body_def split: sum.splits prod.splits)
  show ?thesis
    using establish_link_Inr [OF e] bind_services_Inr [OF b] install_handlers_Inr [OF i]
      install_handlers_Inr_frame [OF i]
    by simp
qed

lemma try_body_Inl:
  assumes "try_body a s = Inl (e, s')"
  shows "\<not> attempt_ok a
     \<and> timers s' = timers s \<and> next_id s' = next_id s \<and> reconnectTimeout s' = reconnectTimeout s
     \<and> alarm_disconnected s' = (if links a then Some False else alarm_disconnected s)
     \<and> wasDisconnected s' = (if links a then False else wasDisconnected s)
     \<and> fired s' = fired s @ (if links a \<and> wasDisconnected s then [DeviceReconnected] else [])
     \<and> length (finds s') \<le> Suc (length (finds s))
     \<and> (links a \<and> binds a \<or> observers s' = observers s \<and> peripheral s' = peripheral s)
     \<and> (ringListenerRegistered s' = ringListenerRegistered s \<and> ringListeners s' = ringListeners s
        \<or> \<not> ringListenerRegistered s \<and> ringListenerRegistered s' \<and> ringListeners s' = Suc (ringListeners s))
     \<and> flowActionsRegistered s' = flowActionsRegistered s
     \<and> stopListeners s' = stopListeners s
     \<and> (stop_register a = None \<longrightarrow> startListeners s' = startListeners s)"
proof -
  consider (link) "establish_link a s = Inl (e, s')"
    | (bind) p s1 where "establish_link a s = Inr (p, s1)" "bind_services a p s1 = Inl (e, s')"
    | (inst) p s1 s2 where "establish_link a s = Inr (p, s1)" "bind_services a p s1 = Inr s2"
        "install_handlers a p s2 = Inl (e, s')"
    using assms by (auto simp: try_body_def split: sum.splits prod.splits)
  then show ?thesis
  proof cases
    case link
    from establish_link_Inl [OF link] show ?thesis by (simp add: attempt_ok_def)
  next
    case bind
    from establish_link_Inr [OF bind(1)] bind_services_Inl [OF bind(2)]
    show ?thesis by (simp add: attempt_ok_def)
  next
    case inst
    from establish_link_Inr [OF inst(1)] bind_services_Inr [OF inst(2)]
      install_handlers_Inl [OF inst(3)] install_handlers_Inl_frame [OF inst(3)]
    show ?thesis by (simp add: attempt_ok_def)
  qed
qed



lemma reconnect_effect:
  "timers (reconnect s) = timers s @ [\<lparr>tid = next_id s, kind = Reconnect, delay = 7000\<rparr>]
   \<and> next_id (reconnect s) = Suc (next_id s)
   \<and> reconnectTimeout (reconnect s) = Some (next_id s)
   \<and> alarm_disconnected (reconnect s) = alarm_disconnected s
   \<and> wasDisconnected (reconnect s) = wasDisconnected s
   \<and> peripheral (reconnect s) = peripheral s
   \<and> observers (reconnect s) = observers s
   \<and> fired (reconnect s) = fired s
   \<and> finds (reconnect s) = finds s
   \<and> ringListeners (reconnect s) = ringListeners s
   \<and> startListeners (reconnect s) = startListeners s
   \<and> stopListeners (reconnect s) = stopListeners s
   \<and> ringListenerRegistered (reconnect s) = ringListenerRegistered s
   \<and> flowActionsRegistered (reconnect s) = flowActionsRegistered s"
  by (simp add: reconnect_def setTimeout_def)

lemma catch_block_Err:
  "\<exists>s'. catch_block a (Err m) s = Inr s'
   \<and> timers s' = timers s @ [\<lparr>tid = next_id s, kind = Reconnect, delay = 7000\<rparr>]
   \<and> next_id s' = Suc (next_id s)
   \<and> reconnectTimeout s' = Some (next_id s)
   \<and> alarm_disconnected s' = (if alarm_set_ok a then Some True else alarm_disconnected s)
   \<and> wasDisconnected s'
   \<and> peripheral s' = peripheral s
   \<and> observers s' = observers s
   \<and> fired s' = fired s
   \<and> finds s' = finds s
   \<and> ringListeners s' = ringListeners s
   \<and> startListeners s' = startListeners s
   \<and> stopListeners s' = stopListeners s
   \<and> ringListenerRegistered s' = ringListenerRegistered s
   \<and> flowActionsRegistered s' = flowActionsRegistered s"
  by (simp add: catch_block_def reconnect_effect set_alarm_def log_line_def)

lemma catch_block_Nullish:
  "\<exists>e s'. catch_block a Nullish s = Inl (e, s')
   \<and> timers s' = timers s \<and> next_id s' = next_id s
   \<and> reconnectTimeout s' = reconnectTimeout s
   \<and> alarm_disconnected s' = alarm_disconnected s
   \<and> wasDisconnected s' = wasDisconnected s
   \<and> peripheral s' = peripheral s
   \<and> observers s' = observers s
   \<and> fired s' = fired s
   \<and> finds s' = finds s
   \<and> ringListeners s' = ringListeners s
   \<and> startListeners s' = startListeners s
   \<and> stopListeners s' = stopListeners s
   \<and> ringListenerRegistered s' = ringListenerRegistered s
   \<and> flowActionsRegistered s' = flowActionsRegistered s"
  by (simp add: catch_block_def log_line_def)

lemma try_body_fails: "\<not> (links a \<and> binds a) \<Longrightarrow> isl (try_body a s)"
  using try_body_Inr [of a s] by (cases "try_body a s") auto







lemma connectToDevice_cases:
  obtains (completed) s' where "try_body a s = Inr s'" "connectToDevice a s = (Resolved, s')"
  | (caught) m s1 s' where "try_body a s = Inl (Err m, s1)" "catch_block a (Err m) s1 = Inr s'"
      "connectToDevice a s = (Resolved, s')"
  | (uncaught) s1 e' s' where "try_body a s = Inl (Nullish, s1)"
      "catch_block a Nullish s1 = Inl (e', s')" "connectToDevice a s = (Rejected e', s')"
proof (cases "try_body a s")
  case (Inr s')
  then show ?thesis using completed by (simp add: connectToDevice_def)
next
  case (Inl x)
  obtain e s1 where x: "x = (e, s1)" by (cases x)
  show ?thesis
  proof (cases e)
    case (Err m)
    obtain s' where "catch_block a (Err m) s1 = Inr s'" using catch_block_Err by blast
    then show ?thesis using caught Inl x Err by (simp add: connectToDevice_def)
  next
    case Nullish
    obtain e' s' where "catch_block a Nullish s1 = Inl (e', s')"
      using catch_block_Nullish by blast
    then show ?thesis using uncaught Inl x Nullish by (simp add: connectToDevice_def)
  qed
qed

lemma caught_effect:
  assumes "catch_block a (Err m) s = Inr s'"
  shows "timers s' = timers s @ [\<lparr>tid = next_id s, kind = Reconnect, delay = 7000\<rparr>]
   \<and> next_id s' = Suc (next_id s)
   \<and> reconnectTimeout s' = Some (next_id s)
   \<and> alarm_disconnected s' = (if alarm_set_ok a then Some True else alarm_disconnected s)
   \<and> wasDisconnected s'
   \<and> peripheral s' = peripheral s
   \<and> observers s' = observers s
   \<and> fired s' = fired s
   \<and> finds s' = finds s
   \<and> ringListeners s' = ringListeners s
   \<and> startListeners s' = startListeners s
   \<and> stopListeners s' = stopListeners s
   \<and> ringListenerRegistered s' = ringListenerRegistered s
   \<and> flowActionsRegistered s' = flowActionsRegistered s"
  using catch_block_Err [of a m s] assms by auto

lemma uncaught_effect:
  assumes "catch_block a Nullish s = Inl (e, s')"
  shows "timers s' = timers s \<and> next_id s' = next_id s
   \<and> reconnectTimeout s' = reconnectTimeout s
   \<and> alarm_disconnected s' = alarm_disconnected s
   \<and> wasDisconnected s' = wasDisconnected s
   \<and> peripheral s' = peripheral s
   \<and> observers s' = observers s
   \<and> fired s' = fired s
   \<and> finds s' = finds s
   \<and> ringListeners s' = ringListeners s
   \<and> startListeners s' = startListeners s
   \<and> stopListeners s' = stopListeners s
   \<and> ringListenerRegistered s' = ringListenerRegistered s
   \<and> flowActionsRegistered s' = flowActionsRegistered s"
  using catch_block_Nullish [of a s] assms by auto

lemma disconnect_handler_effect:
  "timers (disconnect_handler p c f s) = timers s @ [\<lparr>tid = next_id s, kind = Reconnect, delay = 7000\<rparr>]
   \<and> next_id (disconnect_handler p c f s) = Suc (next_id s)
   \<and> reconnectTimeout (disconnect_handler p c f s) = Some (next_id s)
   \<and> alarm_disconnected (disconnect_handler p c f s) =
       (if c then Some True else alarm_disconnected s)
   \<and> wasDisconnected (disconnect_handler p c f s)
   \<and> peripheral (disconnect_handler p c f s) = None
   \<and> observers (disconnect_handler p c f s) = observers s
   \<and> fired (disconnect_handler p c f s) = fired s @ [DeviceDisconnected]
   \<and> finds (disconnect_handler p c f s) = finds s
   \<and> ringListeners (disconnect_handler p c f s) = ringListeners s
   \<and> startListeners (disconnect_handler p c f s) = startListeners s
   \<and> stopListeners (disconnect_handler p c f s) = stopListeners s
   \<and> ringListenerRegistered (disconnect_handler p c f s) = ringListenerRegistered s
   \<and> flowActionsRegistered (disconnect_handler p c f s) = flowActionsRegistered s"
  by (simp add: disconnect_handler_def reconnect_effect set_alarm_def log_line_def
      unregisterPeripheral_def Let_def)

lemma funpow_invariant:
  assumes "\<And>x. P x \<Longrightarrow> P (f x)" and "P x"
  shows "P ((f ^^ n) x)"
  using assms by (induction n) simp_all

lemma clearTimeout_frame:
  "fired (clearTimeout i s) = fired s \<and> wasDisconnected (clearTimeout i s) = wasDisconnected s
   \<and> observers (clearTimeout i s) = observers s \<and> peripheral (clearTimeout i s) = peripheral s
   \<and> alarm_disconnected (clearTimeout i s) = alarm_disconnected s
   \<and> ringListeners (clearTimeout i s) = ringListeners s
   \<and> startListeners (clearTimeout i s) = startListeners s
   \<and> stopListeners (clearTimeout i s) = stopListeners s
   \<and> ringListenerRegistered (clearTimeout i s) = ringListenerRegistered s
   \<and> flowActionsRegistered (clearTimeout i s) = flowActionsRegistered s
   \<and> priv_ringTimeout (clearTimeout i s) = priv_ringTimeout s
   \<and> next_id (clearTimeout i s) = next_id s"
  by (simp add: clearTimeout_def)


subsection \<open>Reconnect scheduling\<close>

lemma pending_reconnect:
  "pending k (reconnect s) = pending k s @ (if k = Reconnect then [\<lparr>tid = next_id s, kind = Reconnect, delay = 7000\<rparr>] else [])"
  by (simp add: pending_def reconnect_effect)

lemma connect_pending:
  assumes "installs a"
  shows "length (pending Reconnect (snd (connectToDevice a s))) + length (observers (snd (connectToDevice a s)))
       \<le> Suc (length (pending Reconnect s) + length (observers s))"
proof (cases rule: connectToDevice_cases [of a s])
  case (completed s')
  from try_body_Inr [OF completed(1)] show ?thesis
    by (auto simp: completed(2) pending_def)
next
  case (caught m s1 s')
  from try_body_Inl [OF caught(1)] assms have "observers s1 = observers s" "timers s1 = timers s"
    by (auto simp: attempt_ok_def)
  with caught_effect [OF caught(2)] show ?thesis
    by (simp add: caught(3) pending_def)
next
  case (uncaught s1 e' s')
  from try_body_Inl [OF uncaught(1)] assms have "observers s1 = observers s" "timers s1 = timers s"
    by (auto simp: attempt_ok_def)
  with uncaught_effect [OF uncaught(2)] show ?thesis
    by (simp add: uncaught(3) pending_def)
qed

lemma disconnect_handler_pending:
  "pending Reconnect (disconnect_handler p c f s) =
     pending Reconnect s @ [\<lparr>tid = next_id s, kind = Reconnect, delay = 7000\<rparr>]"
  by (simp add: pending_def disconnect_handler_effect)

lemma emit_disconnect_one_pending:
  assumes "one_pending s"
  shows "one_pending (emit_disconnect p c f s)"
proof (cases "observers s")
  case Nil
  with assms show ?thesis by (simp add: emit_disconnect_def one_pending_def pending_def)
next
  case (Cons q qs)
  with assms have o: "observers s = [q]" and t: "pending Reconnect s = []"
    by (simp_all add: one_pending_def)
  show ?thesis
  proof (cases "q = p")
    case True
    then show ?thesis
      using o t
      by (simp add: emit_disconnect_def one_pending_def disconnect_handler_pending
          disconnect_handler_effect pending_def)
  next
    case False
    then show ?thesis using o t assms
      by (simp add: emit_disconnect_def one_pending_def pending_def)
  qed
qed

lemma reconnect_fires_one_pending:
  assumes "installs a" and "one_pending s"
  shows "one_pending (reconnect_fires i a s)"
proof (cases "i \<in> set (map tid (pending Reconnect s))")
  case False
  with assms show ?thesis by (simp add: reconnect_fires_def)
next
  case True
  then obtain t where p: "pending Reconnect s = [t]" and i: "tid t = i" and o: "observers s = []"
    using assms(2) by (cases "pending Reconnect s") (auto simp: one_pending_def)
  have "pending Reconnect (clearTimeout i s) = filter (\<lambda>t. tid t \<noteq> i) (pending Reconnect s)"
    by (simp add: pending_def clearTimeout_def conj_commute)
  with p i have "pending Reconnect (clearTimeout i s) = []" by simp
  with o connect_pending [OF assms(1), of "clearTimeout i s"] True show ?thesis
    by (simp add: reconnect_fires_def one_pending_def clearTimeout_frame)
qed

lemma step_one_pending: "scheduled e \<Longrightarrow> one_pending s \<Longrightarrow> one_pending (step s e)"
  by (cases e) (simp_all add: emit_disconnect_one_pending reconnect_fires_one_pending)

lemma run_one_pending: "list_all scheduled es \<Longrightarrow> one_pending s \<Longrightarrow> one_pending (run s es)"
  unfolding run_def by (induction es arbitrary: s) (simp_all add: step_one_pending)

lemma connect_finds: "length (finds (snd (connectToDevice a s))) \<le> Suc (length (finds s))"
proof (cases rule: connectToDevice_cases [of a s])
  case (completed s')
  from try_body_Inr [OF completed(1)] show ?thesis by (simp add: completed(2))
next
  case (caught m s1 s')
  from try_body_Inl [OF caught(1)] caught_effect [OF caught(2)] show ?thesis
    by (simp add: caught(3))
next
  case (uncaught s1 e' s')
  from try_body_Inl [OF uncaught(1)] uncaught_effect [OF uncaught(2)] show ?thesis
    by (simp add: uncaught(3))
qed

text \<open>
  Claim C4, as amended. \<^verbatim>\<open>reconnect\<close> always adds one reconnect timer of 7000 ms to the
  pending ones and keeps its handle; it cancels nothing. The elapse of a reconnect timer
  runs one connect attempt (at most one more call of \<^verbatim>\<open>ble.find\<close>). After the first attempt
  of a new session, over disconnects and attempts run by the reconnect timer, when no
  attempt throws after the disconnect observer is installed, at most one reconnect timer
  is pending.
\<close>

theorem reconnect_timer_discipline:
  "pending Reconnect (reconnect s) =
     pending Reconnect s @ [\<lparr>tid = next_id s, kind = Reconnect, delay = 7000\<rparr>]
   \<and> reconnectTimeout (reconnect s) = Some (next_id s)
   \<and> length (finds (reconnect_fires i a s)) \<le> Suc (length (finds s))
   \<and> (installs a \<and> list_all scheduled es \<longrightarrow>
        length (pending Reconnect (run (snd (connectToDevice a new_device)) es)) \<le> 1)"
proof -
  have "length (pending Reconnect (run (snd (connectToDevice a new_device)) es)) \<le> 1"
    if a: "installs a" and es: "list_all scheduled es"
  proof -
    have "one_pending (snd (connectToDevice a new_device))"
      using connect_pending [OF a, of new_device]
      by (simp add: one_pending_def) (simp add: new_device_def pending_def)
    with es have "one_pending (run (snd (connectToDevice a new_device)) es)"
      by (rule run_one_pending)
    then show ?thesis by (simp add: one_pending_def)
  qed
  moreover have "length (finds (reconnect_fires i a s)) \<le> Suc (length (finds s))"
    using connect_finds [of a "clearTimeout i s"]
    by (simp add: reconnect_fires_def) (simp add: clearTimeout_def)
  ultimately show ?thesis
    by (simp add: pending_reconnect reconnect_effect)
qed

theorem reconnect_timer_discipline_witness:
  "installs (good_attempt 1)
   \<and> list_all scheduled
        [Disconnect 1 True True, ReconnectFires 0 ((good_attempt 2)\<lparr>ble_find := Inl (Err ''not found'')\<rparr>),
         ReconnectFires 1 (good_attempt 2), Disconnect 2 True True]
   \<and> length (pending Reconnect (run (snd (connectToDevice (good_attempt 1) new_device))
        [Disconnect 1 True True, ReconnectFires 0 ((good_attempt 2)\<lparr>ble_find := Inl (Err ''not found'')\<rparr>),
         ReconnectFires 1 (good_attempt 2), Disconnect 2 True True])) \<le> 1"
proof -
  have i: "installs (good_attempt 1)" by (simp add: installs_def good_attempt_def)
  have l: "list_all scheduled
        [Disconnect 1 True True, ReconnectFires 0 ((good_attempt 2)\<lparr>ble_find := Inl (Err ''not found'')\<rparr>),
         ReconnectFires 1 (good_attempt 2), Disconnect 2 True True]"
    by (simp add: installs_def good_attempt_def)
  show ?thesis
    using reconnect_timer_discipline [of new_device 0 "good_attempt 1"
        "[Disconnect 1 True True, ReconnectFires 0 ((good_attempt 2)\<lparr>ble_find := Inl (Err ''not found'')\<rparr>),
          ReconnectFires 1 (good_attempt 2), Disconnect 2 True True]"] i l
    by simp
qed

text \<open>
  Claim C4, as stated, fails. The first attempt of a new session installs the disconnect
  observer of link 1 and then throws at \<^verbatim>\<open>getActionCard\<close>: the catch block schedules a
  reconnect. The link disconnects before the timer elapses: the observer schedules a
  second reconnect, and two reconnect timers are pending. The same holds of two calls of
  \<^verbatim>\<open>reconnect\<close> in a row: the second does not look at the pending timer.
\<close>

theorem reconnect_timers_stack:
  "timers (run new_device [Connect ((good_attempt 1)\<lparr>start_card := Some (Err ''Invalid Flow Card ID'')\<rparr>), Disconnect 1 True True])
     = [\<lparr>tid = 0, kind = Reconnect, delay = 7000\<rparr>, \<lparr>tid = 1, kind = Reconnect, delay = 7000\<rparr>]
   \<and> pending Reconnect (reconnect (reconnect new_device))
     = [\<lparr>tid = 0, kind = Reconnect, delay = 7000\<rparr>, \<lparr>tid = 1, kind = Reconnect, delay = 7000\<rparr>]"
  by (simp add: run_def run_defs)



subsection \<open>The failure path of a connect attempt\<close>




subsection \<open>When a connect attempt rejects\<close>




subsection \<open>Ring actuation\<close>

text \<open>
  Claim C8. \<^verbatim>\<open>ringDevice(active)\<close> writes the single byte 0x02 to the alert characteristic
  when \<open>active\<close> is true and the single byte 0x00 when it is false. Whatever the write
  does, and also when no alert characteristic has been stored, the call resolves: the
  failure is logged (one line), nothing is written, and the link, the alarm, the
  reconnection flag, the registry, the observers and the timers are left as they were.
\<close>

theorem ringDevice_best_effort:
  "fst (ringDevice v w s) = Resolved
   \<and> writes (snd (ringDevice v w s)) =
       (case alertChar s of
          None \<Rightarrow> writes s
        | Some c \<Rightarrow> (case w of None \<Rightarrow> writes s @ [(char_uuid c, [if v then 0x02 else 0x00])]
                               | Some e \<Rightarrow> writes s))
   \<and> length (logged (snd (ringDevice v w s))) =
       (if alertChar s \<noteq> None \<and> w = None then length (logged s) else Suc (length (logged s)))
   \<and> peripheral (snd (ringDevice v w s)) = peripheral s
   \<and> alarm_disconnected (snd (ringDevice v w s)) = alarm_disconnected s
   \<and> wasDisconnected (snd (ringDevice v w s)) = wasDisconnected s
   \<and> registry (snd (ringDevice v w s)) = registry s
   \<and> observers (snd (ringDevice v w s)) = observers s
   \<and> timers (snd (ringDevice v w s)) = timers s
   \<and> reconnectTimeout (snd (ringDevice v w s)) = reconnectTimeout s"
  by (simp add: ringDevice_def alert_write_def Let_def split: option.splits)

subsection \<open>The ring-stop timer\<close>





lemma set_ring_frame:
  "set_ring v c s = Inr s' \<Longrightarrow>
     timers s' = timers s \<and> next_id s' = next_id s \<and> priv_ringTimeout s' = priv_ringTimeout s"
  by (auto simp: set_ring_def split: if_splits)












subsection \<open>Teardown\<close>

text \<open>
  Claim C6, at the scenario of the specification: \<^verbatim>\<open>onInit\<close> starts the monitor (timer 0)
  and connects to link 1, the ring capability is set to true (timer 1 is armed for
  10000 ms), the link disconnects (timer 2 is armed for the reconnect), and the device is
  deleted. \<^verbatim>\<open>onDeleted\<close> resolves, cancels the monitor and the reconnect timer, but tests the
  field \<^verbatim>\<open>ringTimeout\<close> while the handle of the ring-stop timer is in \<^verbatim>\<open>_ringTimeout\<close>: the
  ring-stop timer is still pending after teardown.
\<close>

theorem onDeleted_leaves_ring_timer:
  "fst (onDeleted True None
        (emit_disconnect 1 True True
          (snd (ring_listener True None
            (snd (onInit (Some 12) True (good_attempt 1) new_device)))))) = Resolved
   \<and> timers
     (emit_disconnect 1 True True
        (snd (ring_listener True None
          (snd (onInit (Some 12) True (good_attempt 1) new_device)))))
     = [\<lparr>tid = 0, kind = RssiPoll, delay = 5000\<rparr>, \<lparr>tid = 1, kind = RingStop, delay = 10000\<rparr>,
        \<lparr>tid = 2, kind = Reconnect, delay = 7000\<rparr>]
   \<and> timers
     (snd (onDeleted True None
        (emit_disconnect 1 True True
          (snd (ring_listener True None
            (snd (onInit (Some 12) True (good_attempt 1) new_device)))))))
     = [\<lparr>tid = 1, kind = RingStop, delay = 10000\<rparr>]"
  by (simp add: onInit_def startRSSIMonitoring_def set_ring_def run_defs)



subsection \<open>The disconnect alarm follows the link\<close>












subsection \<open>The reconnected trigger\<close>











subsection \<open>Listeners are registered once\<close>












subsection \<open>The pairing list\<close>











end
